theory Spec2Isabelle
  imports Main
begin

section \<open>JavaScript values\<close>

text \<open>
  The server handles JSON: tool arguments, upstream response bodies and request bodies.
  A value is one of JavaScript's JSON-representable values, plus \<open>undefined\<close> (what
  reading an absent property gives). Numbers are modelled as integers; an object is its
  list of own properties in insertion order.
\<close>

datatype jsval =
    JUndefined
  | JNull
  | JBool bool
  | JNum int
  | JStr string
  | JArr "jsval list"
  | JObj "(string \<times> jsval) list"

text \<open>JavaScript truthiness (\<open>if (v)\<close>, \<open>v || d\<close>, \<open>v && w\<close>).\<close>

fun truthy :: "jsval \<Rightarrow> bool" where
  "truthy JUndefined = False"
| "truthy JNull = False"
| "truthy (JBool b) = b"
| "truthy (JNum n) = (n \<noteq> 0)"
| "truthy (JStr s) = (s \<noteq> [])"
| "truthy (JArr xs) = True"
| "truthy (JObj kvs) = True"

text \<open>\<open>a || b\<close>\<close>

definition js_or :: "jsval \<Rightarrow> jsval \<Rightarrow> jsval" where
  "js_or a b = (if truthy a then a else b)"

text \<open>
  Property read \<open>v.k\<close> on a value that is neither \<open>null\<close> nor \<open>undefined\<close> (or
  \<open>v?.k\<close> on any value): only an object has the properties read by this program.
\<close>

fun member :: "jsval \<Rightarrow> string \<Rightarrow> jsval" where
  "member (JObj kvs) k = (case map_of kvs k of Some v \<Rightarrow> v | None \<Rightarrow> JUndefined)"
| "member v k = JUndefined"

text \<open>\<open>Array.isArray\<close>\<close>

fun isArray :: "jsval \<Rightarrow> bool" where
  "isArray (JArr xs) = True"
| "isArray v = False"

text \<open>Decimal digits of a number, as \<open>String(n)\<close> prints an integer.\<close>

fun string_of_nat :: "nat \<Rightarrow> string" where
  "string_of_nat n =
     (if n < 10 then [''0123456789'' ! n]
      else string_of_nat (n div 10) @ [''0123456789'' ! (n mod 10)])"

declare string_of_nat.simps [simp del]

definition string_of_int :: "int \<Rightarrow> string" where
  "string_of_int i = (if i < 0 then CHR ''-'' # string_of_nat (nat (- i)) else string_of_nat (nat i))"

text \<open>\<open>Array.prototype.join\<close> on strings already converted.\<close>

fun js_join :: "string \<Rightarrow> string list \<Rightarrow> string" where
  "js_join sep [] = []"
| "js_join sep [x] = x"
| "js_join sep (x # y # ys) = x @ sep @ js_join sep (y # ys)"

text \<open>
  \<open>String(v)\<close>, also what a template literal \<open>`${v}`\<close> inserts. An array prints its
  elements joined by commas, \<open>null\<close> and \<open>undefined\<close> elements as the empty string.
\<close>

fun to_string :: "jsval \<Rightarrow> string" where
  "to_string JUndefined = ''undefined''"
| "to_string JNull = ''null''"
| "to_string (JBool b) = (if b then ''true'' else ''false'')"
| "to_string (JNum n) = string_of_int n"
| "to_string (JStr s) = s"
| "to_string (JArr xs) =
     js_join '','' (map (\<lambda>x. if x = JUndefined \<or> x = JNull then [] else to_string x) xs)"
| "to_string (JObj kvs) = ''[object Object]''"

text \<open>The element conversion of \<open>join\<close>.\<close>

definition join_item :: "jsval \<Rightarrow> string" where
  "join_item x = (if x = JUndefined \<or> x = JNull then [] else to_string x)"

section \<open>Errors\<close>

text \<open>
  What the program throws or catches: a plain \<open>Error\<close> with its message, a
  \<open>TypeError\<close> of the runtime, or an error of the HTTP client, which carries its
  message and, when the upstream answered, the response's status and body.
\<close>

datatype js_error =
    Error string
  | TypeError string
  | AxiosError string "(int \<times> jsval) option"

text \<open>\<open>String(error)\<close> for an error object: its name, then its message if not empty.\<close>

fun error_to_string :: "js_error \<Rightarrow> string" where
  "error_to_string (Error m) = (if m = [] then ''Error'' else ''Error: '' @ m)"
| "error_to_string (TypeError m) = (if m = [] then ''TypeError'' else ''TypeError: '' @ m)"
| "error_to_string (AxiosError m r) = (if m = [] then ''AxiosError'' else ''AxiosError: '' @ m)"

section \<open>formatError\<close>

text \<open>\<open>(m) => m.text\<close>: reading a property of \<open>null\<close> or \<open>undefined\<close> throws.\<close>

fun message_text :: "jsval \<Rightarrow> js_error + jsval" where
  "message_text JUndefined = Inl (TypeError ''Cannot read properties of undefined (reading 'text')'')"
| "message_text JNull = Inl (TypeError ''Cannot read properties of null (reading 'text')'')"
| "message_text m = Inr (member m ''text'')"

text \<open>\<open>xs.map(f)\<close> for an \<open>f\<close> that may throw: the first throw ends the loop.\<close>

fun map_throwing :: "('a \<Rightarrow> js_error + 'b) \<Rightarrow> 'a list \<Rightarrow> js_error + 'b list" where
  "map_throwing f [] = Inr []"
| "map_throwing f (x # xs) =
     (case f x of
        Inl e \<Rightarrow> Inl e
      | Inr y \<Rightarrow> (case map_throwing f xs of Inl e \<Rightarrow> Inl e | Inr ys \<Rightarrow> Inr (y # ys)))"

fun formatError :: "js_error \<Rightarrow> js_error + string" where
  "formatError (AxiosError message response) =
     (let data = (case response of None \<Rightarrow> JUndefined | Some r \<Rightarrow> snd r) in
      if truthy (member data ''messages'') \<and> isArray (member data ''messages'') then
        (case member data ''messages'' of
           JArr ms \<Rightarrow>
             (case map_throwing message_text ms of
                Inl e \<Rightarrow> Inl e
              | Inr ts \<Rightarrow> Inr (js_join ''; '' (map join_item ts)))
         | _ \<Rightarrow> Inr [])
      else if truthy (member data ''message'') then
        Inr (to_string (js_or (member data ''detailCode'') (JStr ''Error'')) @ '': ''
             @ to_string (member data ''message''))
      else
        Inr (''HTTP ''
             @ (case response of None \<Rightarrow> ''undefined'' | Some r \<Rightarrow> string_of_int (fst r))
             @ '': '' @ message))"
| "formatError e = Inr (error_to_string e)"

section \<open>Configuration\<close>

text \<open>
  The process environment, read once when the module is loaded. A variable that is unset
  reads as \<open>undefined\<close>; \<open>process.env.X || d\<close> gives \<open>d\<close> for an unset and for an
  empty variable.
\<close>

record env =
  env_BASE_URL :: "string option"
  env_CLIENT_ID :: "string option"
  env_CLIENT_SECRET :: "string option"
  env_API_VERSION :: "string option"

definition env_or :: "string option \<Rightarrow> string \<Rightarrow> string" where
  "env_or v d = (case v of None \<Rightarrow> d | Some s \<Rightarrow> if s = [] then d else s)"

definition SAILPOINT_BASE_URL :: "env \<Rightarrow> string" where
  "SAILPOINT_BASE_URL e = env_or (env_BASE_URL e) []"

definition SAILPOINT_CLIENT_ID :: "env \<Rightarrow> string" where
  "SAILPOINT_CLIENT_ID e = env_or (env_CLIENT_ID e) []"

definition SAILPOINT_CLIENT_SECRET :: "env \<Rightarrow> string" where
  "SAILPOINT_CLIENT_SECRET e = env_or (env_CLIENT_SECRET e) []"

definition SAILPOINT_API_VERSION :: "env \<Rightarrow> string" where
  "SAILPOINT_API_VERSION e = env_or (env_API_VERSION e) ''v3''"

text \<open>The names \<open>validateCredentials\<close> pushes, in its order.\<close>

definition missingVars :: "env \<Rightarrow> string list" where
  "missingVars e =
     (if SAILPOINT_BASE_URL e = [] then [''SAILPOINT_BASE_URL''] else [])
     @ (if SAILPOINT_CLIENT_ID e = [] then [''SAILPOINT_CLIENT_ID''] else [])
     @ (if SAILPOINT_CLIENT_SECRET e = [] then [''SAILPOINT_CLIENT_SECRET''] else [])"

text \<open>The message of the error \<open>validateCredentials\<close> throws, a template over the names.\<close>

definition credentials_message :: "string list \<Rightarrow> string" where
  "credentials_message missing =
     ''Missing required environment variables: '' @ js_join '', '' missing @ ''. ''
     @ ''Please set SAILPOINT_BASE_URL to your tenant API URL (e.g., https://acme.api.identitynow.com), ''
     @ ''and SAILPOINT_CLIENT_ID and SAILPOINT_CLIENT_SECRET from your SailPoint tenant Personal Access Token.''"

definition validateCredentials :: "env \<Rightarrow> js_error + unit" where
  "validateCredentials e =
     (if length (missingVars e) > 0 then Inl (Error (credentials_message (missingVars e)))
      else Inr ())"

section \<open>HTTP requests and the network\<close>

datatype http_method = GET | POST

text \<open>
  A request body: none, the form-encoded parameters of the token request (before the
  runtime's \<open>URLSearchParams.toString\<close>), or a JSON value.
\<close>

datatype req_body = NoBody | FormBody "(string \<times> string) list" | JsonBody jsval

record http_request =
  req_method :: http_method
  req_baseURL :: "string option"
  req_url :: string
  req_params :: "(string \<times> jsval) list"
  req_headers :: "(string \<times> string) list"
  req_data :: req_body

record http_response =
  resp_status :: int
  resp_data :: jsval
  resp_headers :: "(string \<times> string) list"

text \<open>
  The body of a successful token response, in the shape the program reads:
  \<open>access_token\<close>, and \<open>expires_in\<close> in seconds when the upstream sends it.
\<close>

record token_response =
  access_token :: string
  expires_in :: "int option"

text \<open>
  The upstream, as the program sees it through the HTTP client: the token endpoint
  answers with a token response or fails with the client error's message; every other
  call answers with a response or throws an error.
\<close>

record network =
  token_endpoint :: "http_request \<Rightarrow> string + token_response"
  upstream :: "http_request \<Rightarrow> js_error + http_response"

section \<open>Token cache and HTTP client instance\<close>

text \<open>
  The \<open>axios.create\<close> instance: base URL, default headers and timeout (its keep-alive
  agents configure the transport only).
\<close>

record axios_instance =
  baseURL :: string
  headers :: "(string \<times> string) list"
  timeout :: nat

text \<open>The module's mutable variables.\<close>

record state =
  accessToken :: "string option"
  tokenExpiry :: int
  apiClient :: "axios_instance option"

definition initial_state :: state where
  "initial_state = \<lparr>accessToken = None, tokenExpiry = 0, apiClient = None\<rparr>"

definition token_request :: "env \<Rightarrow> http_request" where
  "token_request e =
     \<lparr>req_method = POST,
      req_baseURL = None,
      req_url = SAILPOINT_BASE_URL e @ ''/oauth/token'',
      req_params = [],
      req_headers = [(''Content-Type'', ''application/x-www-form-urlencoded'')],
      req_data = FormBody [(''grant_type'', ''client_credentials''),
                           (''client_id'', SAILPOINT_CLIENT_ID e),
                           (''client_secret'', SAILPOINT_CLIENT_SECRET e)]\<rparr>"

text \<open>
  The second half of \<open>getAccessToken\<close> (\<open>// Request new token\<close>): one POST to the
  token endpoint; on success the cache is overwritten, on failure it is left as it was
  and an \<open>Error\<close> is thrown.
\<close>

definition requestNewToken ::
  "env \<Rightarrow> network \<Rightarrow> int \<Rightarrow> state \<Rightarrow> (js_error + string) \<times> state \<times> http_request list" where
  "requestNewToken e net now s =
     (case token_endpoint net (token_request e) of
        Inl m \<Rightarrow> (Inl (Error (''Failed to obtain access token: '' @ m)), s, [token_request e])
      | Inr r \<Rightarrow>
          (let expiresIn = (case expires_in r of None \<Rightarrow> 720 | Some n \<Rightarrow> if n \<noteq> 0 then n else 720)
           in (Inr (access_token r),
               s\<lparr>accessToken := Some (access_token r), tokenExpiry := now + expiresIn * 1000\<rparr>,
               [token_request e])))"

text \<open>
  \<open>getAccessToken\<close> at time \<open>now\<close> (milliseconds). It returns the token or the error
  thrown, the new state, and the requests it sent. The test \<open>accessToken && ...\<close> is
  false for \<open>null\<close> and for the empty string.
\<close>

definition getAccessToken ::
  "env \<Rightarrow> network \<Rightarrow> int \<Rightarrow> state \<Rightarrow> (js_error + string) \<times> state \<times> http_request list" where
  "getAccessToken e net now s =
     (case accessToken s of
        None \<Rightarrow> requestNewToken e net now s
      | Some t \<Rightarrow>
          if t \<noteq> [] \<and> tokenExpiry s > now + 60000 then (Inr t, s, [])
          else requestNewToken e net now s)"

text \<open>\<open>headers[k] = v\<close>\<close>

fun set_header :: "string \<Rightarrow> string \<Rightarrow> (string \<times> string) list \<Rightarrow> (string \<times> string) list" where
  "set_header k v [] = [(k, v)]"
| "set_header k v (p # ps) = (if fst p = k then (k, v) # ps else p # set_header k v ps)"

definition getApiClient ::
  "env \<Rightarrow> network \<Rightarrow> int \<Rightarrow> state \<Rightarrow> (js_error + axios_instance) \<times> state \<times> http_request list" where
  "getApiClient e net now s =
     (case getAccessToken e net now s of
        (Inl err, s1, tr) \<Rightarrow> (Inl err, s1, tr)
      | (Inr token, s1, tr) \<Rightarrow>
          (let client = (case apiClient s1 of
                           None \<Rightarrow> \<lparr>baseURL = SAILPOINT_BASE_URL e,
                                    headers = [(''Content-Type'', ''application/json'')],
                                    timeout = 30000\<rparr>
                         | Some c \<Rightarrow> c);
               client' = client\<lparr>headers := set_header ''Authorization'' (''Bearer '' @ token) (headers client)\<rparr>
           in (Inr client', s1\<lparr>apiClient := Some client'\<rparr>, tr)))"

section \<open>The tool catalogue\<close>

text \<open>The names of the \<open>tools\<close> array, in its order.\<close>

definition tools :: "string list" where
  "tools =
     [''list_identities'', ''get_identity'',
      ''list_accounts'', ''get_account'', ''get_account_entitlements'',
      ''enable_account'', ''disable_account'', ''unlock_account'',
      ''list_access_profiles'', ''get_access_profile'', ''create_access_profile'',
      ''list_roles'', ''get_role'', ''get_role_assigned_identities'', ''create_role'',
      ''list_certifications'', ''get_certification'',
      ''list_certification_campaigns'', ''get_certification_campaign'',
      ''list_workflows'', ''get_workflow'', ''get_workflow_executions'', ''test_workflow'',
      ''list_sources'', ''get_source'',
      ''search'', ''search_aggregate'',
      ''list_entitlements'', ''get_entitlement'',
      ''list_access_requests'', ''create_access_request'',
      ''list_identity_profiles'', ''get_identity_profile'',
      ''list_sod_policies'', ''get_sod_policy'', ''list_sod_violations'']"

section \<open>String.prototype.replace with a string pattern\<close>

text \<open>
  The first occurrence of the pattern in the subject, as the text before it and the text
  after it.
\<close>

fun split_first :: "string \<Rightarrow> string \<Rightarrow> (string \<times> string) option" where
  "split_first pat [] = (if pat = [] then Some ([], []) else None)"
| "split_first pat (c # cs) =
     (if take (length pat) (c # cs) = pat then Some ([], drop (length pat) (c # cs))
      else (case split_first pat cs of
              None \<Rightarrow> None
            | Some (b, a) \<Rightarrow> Some (c # b, a)))"

text \<open>
  The replacement text is a template: \<open>$$\<close> is a dollar sign, \<open>$&\<close> the matched
  text, \<open>$`\<close> the text before the match, \<open>$'\<close> the text after it; a string pattern has
  no capture groups, so every other \<open>$\<close> stands for itself.
\<close>

fun get_substitution :: "string \<Rightarrow> string \<Rightarrow> string \<Rightarrow> string \<Rightarrow> string" where
  "get_substitution m b a [] = []"
| "get_substitution m b a [c] = [c]"
| "get_substitution m b a (c # d # cs) =
     (if c = CHR ''$'' \<and> d = CHR ''$'' then CHR ''$'' # get_substitution m b a cs
      else if c = CHR ''$'' \<and> d = CHR ''&'' then m @ get_substitution m b a cs
      else if c = CHR ''$'' \<and> d = CHR 0x60 then b @ get_substitution m b a cs
      else if c = CHR ''$'' \<and> d = CHR 0x27 then a @ get_substitution m b a cs
      else c # get_substitution m b a (d # cs))"

definition js_replace :: "string \<Rightarrow> string \<Rightarrow> string \<Rightarrow> string" where
  "js_replace subject pat replacement =
     (case split_first pat subject of
        None \<Rightarrow> subject
      | Some (b, a) \<Rightarrow> b @ get_substitution pat b a replacement @ a)"

section \<open>handleTool\<close>

text \<open>The helper \<open>apiPath\<close>, closed over the configured version.\<close>

definition apiPath :: "string \<Rightarrow> string \<Rightarrow> string" where
  "apiPath version path = js_replace path ''/v3/'' (''/'' @ version @ ''/'')"

text \<open>\<open>args.k\<close> on the argument bag.\<close>

definition arg :: "(string \<rightharpoonup> jsval) \<Rightarrow> string \<Rightarrow> jsval" where
  "arg args k = (case args k of None \<Rightarrow> JUndefined | Some v \<Rightarrow> v)"

text \<open>
  One line \<open>if (args.k) obj.p = args.k\<close>: the properties it adds to the object under
  construction.
\<close>

definition opt :: "(string \<rightharpoonup> jsval) \<Rightarrow> string \<Rightarrow> string \<Rightarrow> (string \<times> jsval) list" where
  "opt args k p = (if truthy (arg args k) then [(p, arg args k)] else [])"

text \<open>
  \<open>(args.k as string[]).map((id) => ({ id, type }))\<close>: a value that is not an array
  has no \<open>map\<close> method.
\<close>

definition refs :: "string \<Rightarrow> string \<Rightarrow> jsval \<Rightarrow> js_error + jsval" where
  "refs k ty v =
     (case v of
        JArr ids \<Rightarrow> Inr (JArr (map (\<lambda>i. JObj [(''id'', i), (''type'', JStr ty)]) ids))
      | _ \<Rightarrow> Inl (TypeError (''args.'' @ k @ ''.map is not a function'')))"

text \<open>
  What one branch of the \<open>switch\<close> asks of the HTTP client instance, and what it
  returns from the response: \<open>response.data\<close>, or for \<open>search\<close> the data with the
  \<open>x-total-count\<close> header.
\<close>

record api_call =
  call_method :: http_method
  call_path :: string
  call_params :: "(string \<times> jsval) list"
  call_data :: "jsval option"

datatype result_kind = ResponseData | SearchResults

definition api_get :: "string \<Rightarrow> (string \<times> jsval) list \<Rightarrow> js_error + api_call \<times> result_kind" where
  "api_get path params =
     Inr (\<lparr>call_method = GET, call_path = path, call_params = params, call_data = None\<rparr>, ResponseData)"

definition api_post :: "string \<Rightarrow> jsval option \<Rightarrow> js_error + api_call \<times> result_kind" where
  "api_post path body =
     Inr (\<lparr>call_method = POST, call_path = path, call_params = [], call_data = body\<rparr>, ResponseData)"

text \<open>
  The \<open>switch (name)\<close> of \<open>handleTool\<close>, one branch per \<open>case\<close> in the source's
  order: the call the branch makes on the client instance, or the error thrown before
  it (the \<open>default\<close> branch, or a \<open>map\<close> on a value that is not an array).
\<close>

definition handleTool_switch ::
  "string \<Rightarrow> string \<Rightarrow> (string \<rightharpoonup> jsval) \<Rightarrow> js_error + api_call \<times> result_kind" where
  "handleTool_switch version name args =
     (if name = ''list_identities'' then
        api_get (apiPath version ''/v3/public-identities'') (opt args ''limit'' ''limit'' @ opt args ''offset'' ''offset'' @ opt args ''filters'' ''filters'' @ opt args ''sorters'' ''sorters'')
      else if name = ''get_identity'' then
        api_get (apiPath version (''/v3/public-identities/'' @ to_string (arg args ''id''))) []
      else if name = ''list_accounts'' then
        api_get (apiPath version ''/v3/accounts'') (opt args ''limit'' ''limit'' @ opt args ''offset'' ''offset'' @ opt args ''filters'' ''filters'' @ opt args ''sorters'' ''sorters'')
      else if name = ''get_account'' then
        api_get (apiPath version (''/v3/accounts/'' @ to_string (arg args ''id''))) []
      else if name = ''get_account_entitlements'' then
        api_get (apiPath version (''/v3/accounts/'' @ to_string (arg args ''accountId'') @ ''/entitlements'')) (opt args ''limit'' ''limit'' @ opt args ''offset'' ''offset'')
      else if name = ''enable_account'' then
        api_post (apiPath version (''/v3/accounts/'' @ to_string (arg args ''id'') @ ''/enable'')) None
      else if name = ''disable_account'' then
        api_post (apiPath version (''/v3/accounts/'' @ to_string (arg args ''id'') @ ''/disable'')) None
      else if name = ''unlock_account'' then
        api_post (apiPath version (''/v3/accounts/'' @ to_string (arg args ''id'') @ ''/unlock'')) None
      else if name = ''list_access_profiles'' then
        api_get (apiPath version ''/v3/access-profiles'') (opt args ''limit'' ''limit'' @ opt args ''offset'' ''offset'' @ opt args ''filters'' ''filters'' @ opt args ''sorters'' ''sorters'' @ opt args ''forSubadmin'' ''for-subadmin'')
      else if name = ''get_access_profile'' then
        api_get (apiPath version (''/v3/access-profiles/'' @ to_string (arg args ''id''))) []
      else if name = ''create_access_profile'' then
        (let body =
           [(''name'', arg args ''name''),
            (''source'', JObj [(''id'', arg args ''sourceId''), (''type'', JStr ''SOURCE'')]),
            (''owner'', JObj [(''id'', arg args ''ownerId''), (''type'', JStr ''IDENTITY'')])]
           @ opt args ''description'' ''description''
           @ (if arg args ''requestable'' \<noteq> JUndefined then [(''requestable'', arg args ''requestable'')] else [])
         in if truthy (arg args ''entitlementIds'') then
              (case refs ''entitlementIds'' ''ENTITLEMENT'' (arg args ''entitlementIds'') of
                 Inl err \<Rightarrow> Inl err
               | Inr es \<Rightarrow>
                   api_post (apiPath version ''/v3/access-profiles'') (Some (JObj (body @ [(''entitlements'', es)]))))
            else api_post (apiPath version ''/v3/access-profiles'') (Some (JObj body)))
      else if name = ''list_roles'' then
        api_get (apiPath version ''/v3/roles'') (opt args ''limit'' ''limit'' @ opt args ''offset'' ''offset'' @ opt args ''filters'' ''filters'' @ opt args ''sorters'' ''sorters'' @ opt args ''forSubadmin'' ''for-subadmin'')
      else if name = ''get_role'' then
        api_get (apiPath version (''/v3/roles/'' @ to_string (arg args ''id''))) []
      else if name = ''get_role_assigned_identities'' then
        api_get (apiPath version (''/v3/roles/'' @ to_string (arg args ''roleId'') @ ''/assigned-identities'')) (opt args ''limit'' ''limit'' @ opt args ''offset'' ''offset'')
      else if name = ''create_role'' then
        (let body =
           [(''name'', arg args ''name''),
            (''owner'', JObj [(''id'', arg args ''ownerId''), (''type'', JStr ''IDENTITY'')])]
           @ opt args ''description'' ''description''
           @ (if arg args ''requestable'' \<noteq> JUndefined then [(''requestable'', arg args ''requestable'')] else [])
         in if truthy (arg args ''accessProfileIds'') then
              (case refs ''accessProfileIds'' ''ACCESS_PROFILE'' (arg args ''accessProfileIds'') of
                 Inl err \<Rightarrow> Inl err
               | Inr ps \<Rightarrow>
                   api_post (apiPath version ''/v3/roles'') (Some (JObj (body @ [(''accessProfiles'', ps)]))))
            else api_post (apiPath version ''/v3/roles'') (Some (JObj body)))
      else if name = ''list_certifications'' then
        api_get (apiPath version ''/v3/certifications'') (opt args ''limit'' ''limit'' @ opt args ''offset'' ''offset'' @ opt args ''filters'' ''filters'')
      else if name = ''get_certification'' then
        api_get (apiPath version (''/v3/certifications/'' @ to_string (arg args ''id''))) []
      else if name = ''list_certification_campaigns'' then
        api_get (apiPath version ''/v3/campaigns'') (opt args ''limit'' ''limit'' @ opt args ''offset'' ''offset'' @ opt args ''filters'' ''filters'' @ opt args ''sorters'' ''sorters'')
      else if name = ''get_certification_campaign'' then
        api_get (apiPath version (''/v3/campaigns/'' @ to_string (arg args ''id''))) []
      else if name = ''list_workflows'' then
        api_get (apiPath version ''/v3/workflows'') (opt args ''limit'' ''limit'' @ opt args ''offset'' ''offset'')
      else if name = ''get_workflow'' then
        api_get (apiPath version (''/v3/workflows/'' @ to_string (arg args ''id''))) []
      else if name = ''get_workflow_executions'' then
        api_get (apiPath version (''/v3/workflows/'' @ to_string (arg args ''workflowId'') @ ''/executions'')) (opt args ''limit'' ''limit'' @ opt args ''offset'' ''offset'')
      else if name = ''test_workflow'' then
        api_post (apiPath version (''/v3/workflows/'' @ to_string (arg args ''workflowId'') @ ''/test''))
          (Some (JObj [(''input'', js_or (arg args ''input'') (JObj []))]))
      else if name = ''list_sources'' then
        api_get (apiPath version ''/v3/sources'') (opt args ''limit'' ''limit'' @ opt args ''offset'' ''offset'' @ opt args ''filters'' ''filters'' @ opt args ''sorters'' ''sorters'')
      else if name = ''get_source'' then
        api_get (apiPath version (''/v3/sources/'' @ to_string (arg args ''id''))) []
      else if name = ''search'' then
        (let queryObj = [(''query'', arg args ''query'')] @ opt args ''queryType'' ''queryType'';
             body = [(''indices'', arg args ''indices''), (''query'', JObj queryObj)]
                    @ opt args ''sort'' ''sort'' @ opt args ''searchAfter'' ''searchAfter'';
             params = opt args ''limit'' ''limit'' @ [(''count'', JBool True)]
         in Inr (\<lparr>call_method = POST, call_path = apiPath version ''/v3/search'',
                  call_params = params, call_data = Some (JObj body)\<rparr>, SearchResults))
      else if name = ''search_aggregate'' then
        (let aggregationsRequest = [(''field'', arg args ''aggregationField'')] @ opt args ''limit'' ''size'';
             body = [(''indices'', arg args ''indices''),
                     (''aggregationType'', arg args ''aggregationType''),
                     (''aggregationsRequest'', JObj aggregationsRequest)]
                    @ (if truthy (arg args ''query'') then [(''query'', JObj [(''query'', arg args ''query'')])] else [])
         in api_post (apiPath version ''/v3/search/aggregate'') (Some (JObj body)))
      else if name = ''list_entitlements'' then
        api_get (apiPath version ''/v3/entitlements'') (opt args ''limit'' ''limit'' @ opt args ''offset'' ''offset'' @ opt args ''filters'' ''filters'' @ opt args ''sorters'' ''sorters'')
      else if name = ''get_entitlement'' then
        api_get (apiPath version (''/v3/entitlements/'' @ to_string (arg args ''id''))) []
      else if name = ''list_access_requests'' then
        api_get (apiPath version ''/v3/access-requests'') (opt args ''requestedFor'' ''requested-for'' @ opt args ''requestedBy'' ''requested-by'' @ opt args ''filters'' ''filters'' @ opt args ''limit'' ''limit'' @ opt args ''offset'' ''offset'')
      else if name = ''create_access_request'' then
        api_post (apiPath version ''/v3/access-requests'')
          (Some (JObj [(''requestedFor'', arg args ''requestedFor''),
                       (''requestedItems'', arg args ''requestedItems''),
                       (''requestType'', js_or (arg args ''requestType'') (JStr ''GRANT_ACCESS''))]))
      else if name = ''list_identity_profiles'' then
        api_get (apiPath version ''/v3/identity-profiles'') (opt args ''limit'' ''limit'' @ opt args ''offset'' ''offset'' @ opt args ''filters'' ''filters'' @ opt args ''sorters'' ''sorters'')
      else if name = ''get_identity_profile'' then
        api_get (apiPath version (''/v3/identity-profiles/'' @ to_string (arg args ''id''))) []
      else if name = ''list_sod_policies'' then
        api_get (apiPath version ''/v3/sod-policies'') (opt args ''limit'' ''limit'' @ opt args ''offset'' ''offset'' @ opt args ''filters'' ''filters'')
      else if name = ''get_sod_policy'' then
        api_get (apiPath version (''/v3/sod-policies/'' @ to_string (arg args ''id''))) []
      else if name = ''list_sod_violations'' then
        api_get (apiPath version ''/v3/sod-violations/predicted'') (opt args ''limit'' ''limit'' @ opt args ''offset'' ''offset'')
      else Inl (Error (''Unknown tool: '' @ name)))"

text \<open>A call on the client instance becomes a request with the instance's defaults.\<close>

definition api_request :: "axios_instance \<Rightarrow> api_call \<Rightarrow> http_request" where
  "api_request api c =
     \<lparr>req_method = call_method c,
      req_baseURL = Some (baseURL api),
      req_url = call_path c,
      req_params = call_params c,
      req_headers = headers api,
      req_data = (case call_data c of None \<Rightarrow> NoBody | Some b \<Rightarrow> JsonBody b)\<rparr>"

text \<open>\<open>response.headers[k]\<close>\<close>

definition response_header :: "http_response \<Rightarrow> string \<Rightarrow> jsval" where
  "response_header r k = (case map_of (resp_headers r) k of None \<Rightarrow> JUndefined | Some v \<Rightarrow> JStr v)"

definition tool_result :: "result_kind \<Rightarrow> http_response \<Rightarrow> jsval" where
  "tool_result kind response =
     (case kind of
        ResponseData \<Rightarrow> resp_data response
      | SearchResults \<Rightarrow>
          JObj [(''results'', resp_data response),
                (''totalCount'', response_header response ''x-total-count'')])"

text \<open>
  \<open>handleTool\<close>: validate the configuration, get the client instance (and with it a
  token), run the branch of the tool, send its request. The result is the value returned
  or the error thrown, the new state, and the requests sent, in order.
\<close>

definition handleTool ::
  "env \<Rightarrow> network \<Rightarrow> int \<Rightarrow> state \<Rightarrow> string \<Rightarrow> (string \<rightharpoonup> jsval)
     \<Rightarrow> (js_error + jsval) \<times> state \<times> http_request list" where
  "handleTool e net now s name args =
     (case validateCredentials e of
        Inl err \<Rightarrow> (Inl err, s, [])
      | Inr u \<Rightarrow>
          (case getApiClient e net now s of
             (Inl err, s1, tr) \<Rightarrow> (Inl err, s1, tr)
           | (Inr api, s1, tr) \<Rightarrow>
               (case handleTool_switch (SAILPOINT_API_VERSION e) name args of
                  Inl err \<Rightarrow> (Inl err, s1, tr)
                | Inr (c, kind) \<Rightarrow>
                    (case upstream net (api_request api c) of
                       Inl err \<Rightarrow> (Inl err, s1, tr @ [api_request api c])
                     | Inr response \<Rightarrow>
                         (Inr (tool_result kind response), s1, tr @ [api_request api c])))))"

section \<open>The server\<close>






section \<open>The documented endpoint table\<close>

text \<open>
  The table \<open>API Endpoint Mapping\<close> of \<open>docs/architecture/components.md\<close>, read
  operations first, then write operations: tool, HTTP method, endpoint. The table writes
  \<open>{id}\<close> for the one path parameter of an endpoint.
\<close>

datatype segment = Lit string | IdParam

fun fill :: "string \<Rightarrow> segment list \<Rightarrow> string" where
  "fill v [] = []"
| "fill v (Lit s # segs) = s @ fill v segs"
| "fill v (IdParam # segs) = v @ fill v segs"

definition endpoint_table :: "(string \<times> http_method \<times> segment list) list" where
  "endpoint_table =
     [(''list_identities'', GET, [Lit ''/v3/public-identities'']),
      (''get_identity'', GET, [Lit ''/v3/public-identities/'', IdParam]),
      (''list_accounts'', GET, [Lit ''/v3/accounts'']),
      (''get_account'', GET, [Lit ''/v3/accounts/'', IdParam]),
      (''get_account_entitlements'', GET, [Lit ''/v3/accounts/'', IdParam, Lit ''/entitlements'']),
      (''list_access_profiles'', GET, [Lit ''/v3/access-profiles'']),
      (''get_access_profile'', GET, [Lit ''/v3/access-profiles/'', IdParam]),
      (''list_roles'', GET, [Lit ''/v3/roles'']),
      (''get_role'', GET, [Lit ''/v3/roles/'', IdParam]),
      (''get_role_assigned_identities'', GET, [Lit ''/v3/roles/'', IdParam, Lit ''/assigned-identities'']),
      (''list_certifications'', GET, [Lit ''/v3/certifications'']),
      (''get_certification'', GET, [Lit ''/v3/certifications/'', IdParam]),
      (''list_certification_campaigns'', GET, [Lit ''/v3/campaigns'']),
      (''get_certification_campaign'', GET, [Lit ''/v3/campaigns/'', IdParam]),
      (''list_workflows'', GET, [Lit ''/v3/workflows'']),
      (''get_workflow'', GET, [Lit ''/v3/workflows/'', IdParam]),
      (''get_workflow_executions'', GET, [Lit ''/v3/workflows/'', IdParam, Lit ''/executions'']),
      (''list_sources'', GET, [Lit ''/v3/sources'']),
      (''get_source'', GET, [Lit ''/v3/sources/'', IdParam]),
      (''list_entitlements'', GET, [Lit ''/v3/entitlements'']),
      (''get_entitlement'', GET, [Lit ''/v3/entitlements/'', IdParam]),
      (''list_access_requests'', GET, [Lit ''/v3/access-requests'']),
      (''list_identity_profiles'', GET, [Lit ''/v3/identity-profiles'']),
      (''get_identity_profile'', GET, [Lit ''/v3/identity-profiles/'', IdParam]),
      (''list_sod_policies'', GET, [Lit ''/v3/sod-policies'']),
      (''get_sod_policy'', GET, [Lit ''/v3/sod-policies/'', IdParam]),
      (''list_sod_violations'', GET, [Lit ''/v3/sod-violations/predicted'']),
      (''create_access_profile'', POST, [Lit ''/v3/access-profiles'']),
      (''create_role'', POST, [Lit ''/v3/roles'']),
      (''create_access_request'', POST, [Lit ''/v3/access-requests'']),
      (''enable_account'', POST, [Lit ''/v3/accounts/'', IdParam, Lit ''/enable'']),
      (''disable_account'', POST, [Lit ''/v3/accounts/'', IdParam, Lit ''/disable'']),
      (''unlock_account'', POST, [Lit ''/v3/accounts/'', IdParam, Lit ''/unlock'']),
      (''test_workflow'', POST, [Lit ''/v3/workflows/'', IdParam, Lit ''/test'']),
      (''search'', POST, [Lit ''/v3/search'']),
      (''search_aggregate'', POST, [Lit ''/v3/search/aggregate''])]"

text \<open>The argument a tool's schema requires for the \<open>{id}\<close> of its endpoint.\<close>

definition id_argument :: "string \<Rightarrow> string" where
  "id_argument name =
     (if name = ''get_account_entitlements'' then ''accountId''
      else if name = ''get_role_assigned_identities'' then ''roleId''
      else if name = ''get_workflow_executions'' \<or> name = ''test_workflow'' then ''workflowId''
      else ''id'')"

text \<open>
  The two array-valued arguments (\<open>type: "array"\<close> in the schemas of
  \<open>create_access_profile\<close> and \<open>create_role\<close>), when given, are arrays.
\<close>

definition array_args :: "string \<Rightarrow> (string \<rightharpoonup> jsval) \<Rightarrow> bool" where
  "array_args name args =
     ((name = ''create_access_profile'' \<and> truthy (arg args ''entitlementIds'')
         \<longrightarrow> isArray (arg args ''entitlementIds''))
      \<and> (name = ''create_role'' \<and> truthy (arg args ''accessProfileIds'')
         \<longrightarrow> isArray (arg args ''accessProfileIds'')))"


text \<open>
  The tools that build a \<open>params\<close> object for a GET request, each with its optional
  arguments and the query parameter each one sets.
\<close>

definition list_tools :: "(string \<times> (string \<times> string) list) list" where
  "list_tools =
     [(''list_identities'',
         [(''limit'', ''limit''), (''offset'', ''offset''), (''filters'', ''filters''), (''sorters'', ''sorters'')]),
      (''list_accounts'',
         [(''limit'', ''limit''), (''offset'', ''offset''), (''filters'', ''filters''), (''sorters'', ''sorters'')]),
      (''get_account_entitlements'', [(''limit'', ''limit''), (''offset'', ''offset'')]),
      (''list_access_profiles'',
         [(''limit'', ''limit''), (''offset'', ''offset''), (''filters'', ''filters''), (''sorters'', ''sorters''),
          (''forSubadmin'', ''for-subadmin'')]),
      (''list_roles'',
         [(''limit'', ''limit''), (''offset'', ''offset''), (''filters'', ''filters''), (''sorters'', ''sorters''),
          (''forSubadmin'', ''for-subadmin'')]),
      (''get_role_assigned_identities'', [(''limit'', ''limit''), (''offset'', ''offset'')]),
      (''list_certifications'', [(''limit'', ''limit''), (''offset'', ''offset''), (''filters'', ''filters'')]),
      (''list_certification_campaigns'',
         [(''limit'', ''limit''), (''offset'', ''offset''), (''filters'', ''filters''), (''sorters'', ''sorters'')]),
      (''list_workflows'', [(''limit'', ''limit''), (''offset'', ''offset'')]),
      (''get_workflow_executions'', [(''limit'', ''limit''), (''offset'', ''offset'')]),
      (''list_sources'',
         [(''limit'', ''limit''), (''offset'', ''offset''), (''filters'', ''filters''), (''sorters'', ''sorters'')]),
      (''list_entitlements'',
         [(''limit'', ''limit''), (''offset'', ''offset''), (''filters'', ''filters''), (''sorters'', ''sorters'')]),
      (''list_access_requests'',
         [(''requestedFor'', ''requested-for''), (''requestedBy'', ''requested-by''), (''filters'', ''filters''),
          (''limit'', ''limit''), (''offset'', ''offset'')]),
      (''list_identity_profiles'',
         [(''limit'', ''limit''), (''offset'', ''offset''), (''filters'', ''filters''), (''sorters'', ''sorters'')]),
      (''list_sod_policies'', [(''limit'', ''limit''), (''offset'', ''offset''), (''filters'', ''filters'')]),
      (''list_sod_violations'', [(''limit'', ''limit''), (''offset'', ''offset'')])]"

section \<open>Example inputs\<close>

text \<open>Concrete configurations, states and upstreams on which the theorems are run.\<close>

definition example_env :: env where
  "example_env =
     \<lparr>env_BASE_URL = Some ''https://acme.api.identitynow.com'',
      env_CLIENT_ID = Some ''client'',
      env_CLIENT_SECRET = Some ''secret'',
      env_API_VERSION = None\<rparr>"

text \<open>No base URL, an empty client secret.\<close>

definition example_env_unset :: env where
  "example_env_unset =
     \<lparr>env_BASE_URL = None,
      env_CLIENT_ID = Some ''client'',
      env_CLIENT_SECRET = Some [],
      env_API_VERSION = None\<rparr>"

definition example_response :: http_response where
  "example_response =
     \<lparr>resp_status = 200,
      resp_data = JArr [JObj [(''id'', JStr ''2c91808a''), (''name'', JStr ''Ada'')]],
      resp_headers = [(''content-type'', ''application/json'')]\<rparr>"

text \<open>An upstream whose token endpoint answers every exchange with \<open>r\<close>.\<close>

definition example_network :: "token_response \<Rightarrow> network" where
  "example_network r =
     \<lparr>token_endpoint = (\<lambda>req. Inr r), upstream = (\<lambda>req. Inr example_response)\<rparr>"

text \<open>An upstream that cannot be reached.\<close>

definition example_network_down :: network where
  "example_network_down =
     \<lparr>token_endpoint = (\<lambda>req. Inl ''connect ECONNREFUSED''),
      upstream = (\<lambda>req. Inl (AxiosError ''connect ECONNREFUSED'' None))\<rparr>"

text \<open>Upstream error bodies.\<close>

definition example_messages_body :: jsval where
  "example_messages_body =
     JObj [(''messages'', JArr [JObj [(''text'', JStr ''A'')], JObj [(''text'', JStr ''B'')]]),
           (''detailCode'', JStr ''X''),
           (''message'', JStr ''Y'')]"

definition example_detail_body :: jsval where
  "example_detail_body = JObj [(''detailCode'', JStr ''X''), (''message'', JStr ''Y'')]"

definition example_message_body :: jsval where
  "example_message_body = JObj [(''message'', JStr ''Y'')]"

text \<open>A cache holding the token \<open>tok\<close> until the given instant.\<close>

definition example_state :: "int \<Rightarrow> state" where
  "example_state expiry = \<lparr>accessToken = Some ''tok'', tokenExpiry = expiry, apiClient = None\<rparr>"

definition example_token :: token_response where
  "example_token = \<lparr>access_token = ''new'', expires_in = Some 3600\<rparr>"

text \<open>The client instance once the token \<open>tok\<close> is attached.\<close>

definition example_client :: axios_instance where
  "example_client =
     \<lparr>baseURL = ''https://acme.api.identitynow.com'',
      headers = [(''Content-Type'', ''application/json''), (''Authorization'', ''Bearer tok'')],
      timeout = 30000\<rparr>"

text \<open>The arguments of the spec's access-request scenario.\<close>

definition example_request_args :: "string \<rightharpoonup> jsval" where
  "example_request_args =
     [''requestedFor'' \<mapsto> JArr [JStr ''id1''],
      ''requestedItems'' \<mapsto> JArr [JObj [(''type'', JStr ''ROLE''), (''id'', JStr ''r1'')]]]"


section \<open>Properties of the token cache\<close>

text \<open>Whenever the test of the cache fails, \<open>getAccessToken\<close> is its second half.\<close>

lemma getAccessToken_requests:
  assumes "accessToken s = None \<or> accessToken s = Some [] \<or> tokenExpiry s \<le> now + 60000"
  shows "getAccessToken e net now s = requestNewToken e net now s"
  using assms by (auto simp: getAccessToken_def split: option.splits)

text \<open>
  C2. A cached token whose expiry is at least 61 seconds (61000 ms) after \<open>now\<close> is
  returned as it is: no request is sent, and the state, with the token and its expiry, is
  the one before the call. The cached token is a non-empty string; the program tests the
  cache with \<open>accessToken && ...\<close>, which counts the empty string as no token (that
  case goes with the absent token).
\<close>

theorem getAccessToken_reuse:
  assumes "accessToken s = Some t" and "t \<noteq> []" and "now + 61000 \<le> tokenExpiry s"
  shows "getAccessToken e net now s = (Inr t, s, [])"
  using assms by (simp add: getAccessToken_def)

text \<open>
  At the boundary: the token expires exactly 61 seconds from now, and the upstream is
  unreachable.
\<close>

theorem getAccessToken_reuse_witness:
  "accessToken (example_state 1061000) = Some ''tok'' \<and> ''tok'' \<noteq> []
   \<and> (1000000::int) + 61000 \<le> tokenExpiry (example_state 1061000)
   \<and> getAccessToken example_env example_network_down 1000000 (example_state 1061000)
       = (Inr ''tok'', example_state 1061000, [])"
proof -
  have a: "accessToken (example_state 1061000) = Some ''tok''"
    and b: "''tok'' \<noteq> []"
    and c: "(1000000::int) + 61000 \<le> tokenExpiry (example_state 1061000)"
    by (simp_all add: example_state_def)
  show ?thesis
    using a b c getAccessToken_reuse [OF a b c, of example_env example_network_down] by simp
qed

text \<open>
  C3. With no token cached (\<open>null\<close>, or the empty string), or a cached token whose expiry
  is at most 59 seconds (59000 ms) after \<open>now\<close>, \<open>getAccessToken\<close> sends exactly one
  request, the credential exchange (a POST to \<open>{base}/oauth/token\<close>). When the exchange
  answers, the token returned and cached is the response's \<open>access_token\<close> and the cached
  expiry is \<open>now\<close> plus the response's time-to-live; nothing else of the state changes.
  When the exchange fails, the error \<open>Failed to obtain access token: ...\<close> is thrown and
  the cache is left as it was.
\<close>

theorem getAccessToken_refresh:
  assumes "accessToken s = None \<or> accessToken s = Some [] \<or> tokenExpiry s \<le> now + 59000"
  shows "snd (snd (getAccessToken e net now s)) = [token_request e]
    \<and> req_method (token_request e) = POST
    \<and> req_url (token_request e) = SAILPOINT_BASE_URL e @ ''/oauth/token''
    \<and> (case token_endpoint net (token_request e) of
         Inl m \<Rightarrow>
           getAccessToken e net now s
             = (Inl (Error (''Failed to obtain access token: '' @ m)), s, [token_request e])
       | Inr r \<Rightarrow>
           fst (getAccessToken e net now s) = Inr (access_token r)
           \<and> accessToken (fst (snd (getAccessToken e net now s))) = Some (access_token r)
           \<and> tokenExpiry (fst (snd (getAccessToken e net now s)))
               = now + (case expires_in r of None \<Rightarrow> 720 | Some n \<Rightarrow> if n = 0 then 720 else n) * 1000
           \<and> apiClient (fst (snd (getAccessToken e net now s))) = apiClient s)"
proof -
  have "getAccessToken e net now s = requestNewToken e net now s"
    using assms by (intro getAccessToken_requests) auto
  then show ?thesis
    by (simp add: requestNewToken_def token_request_def Let_def split: sum.splits option.splits)
qed

text \<open>
  A token that expires exactly 59 seconds from now is replaced; with no token and an
  unreachable upstream the one exchange is attempted and the cache stays empty.
\<close>

theorem getAccessToken_refresh_witness:
  "tokenExpiry (example_state 1059000) \<le> 1000000 + 59000
   \<and> getAccessToken example_env (example_network \<lparr>access_token = ''new'', expires_in = Some 3600\<rparr>)
        1000000 (example_state 1059000)
      = (Inr ''new'', \<lparr>accessToken = Some ''new'', tokenExpiry = 4600000, apiClient = None\<rparr>,
         [token_request example_env])
   \<and> accessToken initial_state = None
   \<and> getAccessToken example_env example_network_down 1000000 initial_state
      = (Inl (Error ''Failed to obtain access token: connect ECONNREFUSED''), initial_state,
         [token_request example_env])"
proof -
  have a: "accessToken (example_state 1059000) = None \<or> accessToken (example_state 1059000) = Some []
           \<or> tokenExpiry (example_state 1059000) \<le> 1000000 + 59000"
    by (simp add: example_state_def)
  have b: "accessToken initial_state = None \<or> accessToken initial_state = Some []
           \<or> tokenExpiry initial_state \<le> 1000000 + 59000"
    by (simp add: initial_state_def)
  show ?thesis
    using getAccessToken_refresh [OF a, of example_env "example_network \<lparr>access_token = ''new'', expires_in = Some 3600\<rparr>"]
      getAccessToken_refresh [OF b, of example_env example_network_down]
    apply (simp add: example_network_def example_network_down_def)
    apply (simp add: example_state_def initial_state_def prod_eq_iff)
    done
qed

text \<open>
  Where the response omits \<open>expires_in\<close>, and where it carries one that is not 0, the
  new expiry is what the comment on \<open>expiresIn\<close> says: \<open>now\<close> plus the 720-second
  default, and \<open>now\<close> plus \<open>expires_in\<close> seconds.
\<close>

lemma requested_token_expiry:
  assumes "accessToken s = None \<or> accessToken s = Some [] \<or> tokenExpiry s \<le> now + 60000"
      and "token_endpoint net (token_request e) = Inr r"
  shows "(expires_in r = None
            \<longrightarrow> tokenExpiry (fst (snd (getAccessToken e net now s))) = now + 720 * 1000)
       \<and> (\<forall>n. expires_in r = Some n \<and> n \<noteq> 0
            \<longrightarrow> tokenExpiry (fst (snd (getAccessToken e net now s))) = now + n * 1000)"
proof -
  have "getAccessToken e net now s = requestNewToken e net now s"
    using assms(1) by (rule getAccessToken_requests)
  with assms(2) show ?thesis
    by (simp add: requestNewToken_def)
qed

text \<open>
  C4. The claim: a response that omits \<open>expires_in\<close> gives the expiry \<open>now\<close> plus 720
  seconds, a response that carries it gives \<open>now\<close> plus \<open>expires_in\<close> seconds. The code
  evaluated on a response that carries \<open>expires_in: 0\<close>, with no token cached and
  \<open>now\<close> = 1000000 ms: the field is present, and the new expiry is 1720000, \<open>now\<close> plus
  720 seconds, not \<open>now\<close> plus 0 seconds. \<open>response.data.expires_in || 720\<close> takes the
  default for a value that is provided, against the comment beside it (default to 12
  minutes if not provided).
\<close>

theorem expires_in_zero_default:
  "expires_in \<lparr>access_token = ''new'', expires_in = Some 0\<rparr> = Some 0
   \<and> tokenExpiry (fst (snd (getAccessToken example_env
          (example_network \<lparr>access_token = ''new'', expires_in = Some 0\<rparr>) 1000000 initial_state)))
       = 1720000
   \<and> tokenExpiry (fst (snd (getAccessToken example_env
          (example_network \<lparr>access_token = ''new'', expires_in = Some 0\<rparr>) 1000000 initial_state)))
       \<noteq> 1000000 + 0 * 1000"
  by (simp add: getAccessToken_def requestNewToken_def initial_state_def example_network_def)

section \<open>Properties of formatError\<close>

lemma map_throwing_message_text:
  "JUndefined \<notin> set ms \<Longrightarrow> JNull \<notin> set ms \<Longrightarrow>
   map_throwing message_text ms = Inr (map (\<lambda>m. member m ''text'') ms)"
proof (induction ms)
  case Nil
  then show ?case by simp
next
  case (Cons m ms)
  then have "message_text m = Inr (member m ''text'')"
    by (cases m) simp_all
  with Cons show ?case by simp
qed

text \<open>
  C6 as stated fails on a body that carries a \<open>message\<close> and no \<open>detailCode\<close>: it has
  neither a \<open>messages\<close> list nor the pair of \<open>detailCode\<close> and \<open>message\<close>, and it is
  not rendered as \<open>HTTP <status>: <message>\<close> but as \<open>Error: <message>\<close>, by
  \<open>data.detailCode || "Error"\<close>.
\<close>

theorem formatError_message_only_counterexample:
  "member example_message_body ''messages'' = JUndefined
   \<and> member example_message_body ''detailCode'' = JUndefined
   \<and> formatError (AxiosError ''Request failed with status code 400'' (Some (400, example_message_body)))
       = Inr ''Error: Y''
   \<and> formatError (AxiosError ''Request failed with status code 400'' (Some (400, example_message_body)))
       \<noteq> Inr ''HTTP 400: Request failed with status code 400''"
  by (simp add: example_message_body_def js_or_def)

text \<open>
  C6, amended. For an error of the HTTP client whose response has status \<open>status\<close> and
  body \<open>data\<close>:
  \<^item> if \<open>data.messages\<close> is an array (of entries that are not \<open>null\<close>), the result is
    the entries' \<open>text\<close> joined by \<open>"; "\<close>, whatever else the body carries;
  \<^item> otherwise, if \<open>data.message\<close> is a non-empty string \<open>Y\<close>, the result is \<open>"X: Y"\<close>
    when \<open>data.detailCode\<close> is a non-empty string \<open>X\<close>, and \<open>"Error: Y"\<close> when
    \<open>data.detailCode\<close> is absent (or falsy);
  \<^item> otherwise the result is \<open>"HTTP <status>: <message>"\<close>, with the error's own message.
\<close>

theorem formatError_shapes:
  "(member data ''messages'' = JArr ms \<and> JUndefined \<notin> set ms \<and> JNull \<notin> set ms
      \<longrightarrow> formatError (AxiosError message (Some (status, data)))
           = Inr (js_join ''; '' (map (\<lambda>m. join_item (member m ''text'')) ms)))
   \<and> (\<not> isArray (member data ''messages'') \<and> member data ''message'' = JStr y \<and> y \<noteq> []
        \<and> member data ''detailCode'' = JStr x \<and> x \<noteq> []
      \<longrightarrow> formatError (AxiosError message (Some (status, data))) = Inr (x @ '': '' @ y))
   \<and> (\<not> isArray (member data ''messages'') \<and> member data ''message'' = JStr y \<and> y \<noteq> []
        \<and> \<not> truthy (member data ''detailCode'')
      \<longrightarrow> formatError (AxiosError message (Some (status, data))) = Inr (''Error: '' @ y))
   \<and> (\<not> isArray (member data ''messages'') \<and> \<not> truthy (member data ''message'')
      \<longrightarrow> formatError (AxiosError message (Some (status, data)))
           = Inr (''HTTP '' @ string_of_int status @ '': '' @ message))"
  by (simp add: map_throwing_message_text js_or_def o_def)

text \<open>
  The spec's three bodies, and a body that is not JSON. The first body also carries a
  \<open>detailCode\<close> and a \<open>message\<close>: the \<open>messages\<close> list wins.
\<close>

theorem formatError_shapes_witness:
  "member example_messages_body ''messages'' = JArr [JObj [(''text'', JStr ''A'')], JObj [(''text'', JStr ''B'')]]
   \<and> member example_messages_body ''message'' = JStr ''Y''
   \<and> formatError (AxiosError ''Request failed with status code 400'' (Some (400, example_messages_body)))
       = Inr ''A; B''
   \<and> \<not> isArray (member example_detail_body ''messages'')
   \<and> member example_detail_body ''message'' = JStr ''Y''
   \<and> member example_detail_body ''detailCode'' = JStr ''X''
   \<and> formatError (AxiosError ''Request failed with status code 400'' (Some (400, example_detail_body)))
       = Inr ''X: Y''
   \<and> \<not> truthy (member example_message_body ''detailCode'')
   \<and> formatError (AxiosError ''Request failed with status code 400'' (Some (400, example_message_body)))
       = Inr ''Error: Y''
   \<and> \<not> truthy (member (JStr ''Bad Gateway'') ''message'')
   \<and> formatError (AxiosError ''Request failed with status code 502'' (Some (502, JStr ''Bad Gateway'')))
       = Inr ''HTTP 502: Request failed with status code 502''"
  using
    formatError_shapes [of example_messages_body
       "[JObj [(''text'', JStr ''A'')], JObj [(''text'', JStr ''B'')]]"
       "''Request failed with status code 400''" 400 "''Y''" "''X''"]
    formatError_shapes [of example_detail_body "[]"
       "''Request failed with status code 400''" 400 "''Y''" "''X''"]
    formatError_shapes [of example_message_body "[]"
       "''Request failed with status code 400''" 400 "''Y''" "''X''"]
    formatError_shapes [of "JStr ''Bad Gateway''" "[]"
       "''Request failed with status code 502''" 502 "''Y''" "''X''"]
  by (simp add: example_messages_body_def example_detail_body_def example_message_body_def
      join_item_def string_of_int_def string_of_nat.simps)

section \<open>Properties of the dispatcher\<close>

subsection \<open>The version substitution\<close>

lemma get_substitution_plain:
  "CHR ''$'' \<notin> set t \<Longrightarrow> get_substitution m b a t = t"
  by (induction m b a t rule: get_substitution.induct) auto

lemma apiPath_v3:
  assumes "CHR ''$'' \<notin> set v"
  shows "apiPath v (CHR ''/'' # CHR ''v'' # CHR ''3'' # CHR ''/'' # rest) = ''/'' @ v @ ''/'' @ rest"
proof -
  have "CHR ''$'' \<notin> set (''/'' @ v @ ''/'')" using assms by simp
  then show ?thesis
    by (simp add: apiPath_def js_replace_def get_substitution_plain)
qed

lemma apiPath_baseline: "apiPath ''v3'' (CHR ''/'' # CHR ''v'' # CHR ''3'' # CHR ''/'' # rest) = CHR ''/'' # CHR ''v'' # CHR ''3'' # CHR ''/'' # rest"
  using apiPath_v3[of "''v3''" rest] by simp


subsection \<open>The branches of the switch\<close>

lemma table_names: "length endpoint_table = 36" "distinct (map fst endpoint_table)" 
    "length tools = 36"
  by (simp_all add: endpoint_table_def tools_def) 

lemma table_tools: "set (map fst endpoint_table) = set tools"
proof
  show "set (map fst endpoint_table) \<subseteq> set tools"
    by (simp add: endpoint_table_def tools_def)
  show "set tools \<subseteq> set (map fst endpoint_table)"
    by (simp add: endpoint_table_def tools_def)
qed

lemma refs_array: "isArray v \<Longrightarrow> \<exists>r. refs k ty v = Inr r"
  by (cases v) (simp_all add: refs_def)

lemma switch_create_access_profile:
  assumes "array_args ''create_access_profile'' args"
  shows "\<exists>c kind. handleTool_switch v ''create_access_profile'' args = Inr (c, kind)
           \<and> call_method c = POST \<and> call_path c = apiPath v ''/v3/access-profiles''"
proof (cases "truthy (arg args ''entitlementIds'')")
  case True
  with assms have "isArray (arg args ''entitlementIds'')"
    by (simp add: array_args_def)
  then obtain r where "refs ''entitlementIds'' ''ENTITLEMENT'' (arg args ''entitlementIds'') = Inr r"
    using refs_array by blast
  with True show ?thesis
    by (simp add: handleTool_switch_def api_post_def Let_def)
next
  case False
  then show ?thesis
    by (simp add: handleTool_switch_def api_post_def Let_def)
qed

lemma switch_create_role:
  assumes "array_args ''create_role'' args"
  shows "\<exists>c kind. handleTool_switch v ''create_role'' args = Inr (c, kind)
           \<and> call_method c = POST \<and> call_path c = apiPath v ''/v3/roles''"
proof (cases "truthy (arg args ''accessProfileIds'')")
  case True
  with assms have "isArray (arg args ''accessProfileIds'')"
    by (simp add: array_args_def)
  then obtain r where "refs ''accessProfileIds'' ''ACCESS_PROFILE'' (arg args ''accessProfileIds'') = Inr r"
    using refs_array by blast
  with True show ?thesis
    by (simp add: handleTool_switch_def api_post_def Let_def)
next
  case False
  then show ?thesis
    by (simp add: handleTool_switch_def api_post_def Let_def)
qed

lemma switch_known:
  assumes "(name, m, tmpl) \<in> set endpoint_table" and "array_args name args"
  shows "\<exists>c kind. handleTool_switch v name args = Inr (c, kind) \<and> call_method c = m
           \<and> call_path c = apiPath v (fill (to_string (arg args (id_argument name))) tmpl)"
proof -
  consider (profile) "name = ''create_access_profile''" | (role) "name = ''create_role''"
    | (other) "name \<noteq> ''create_access_profile''" "name \<noteq> ''create_role''"
    by blast
  then show ?thesis
  proof cases
    case profile
    with assms(1) have "m = POST" "tmpl = [Lit ''/v3/access-profiles'']"
      by (simp_all add: endpoint_table_def)
    with profile assms(2) switch_create_access_profile[of args v] show ?thesis
      by simp
  next
    case role
    with assms(1) have "m = POST" "tmpl = [Lit ''/v3/roles'']"
      by (simp_all add: endpoint_table_def)
    with role assms(2) switch_create_role[of args v] show ?thesis
      by simp
  next
    case other
    with assms(1) show ?thesis
      unfolding endpoint_table_def
      apply (simp only: set_simps insert_iff empty_iff prod.inject)
      apply (elim disjE conjE)
      apply (simp_all add: handleTool_switch_def api_get_def api_post_def id_argument_def Let_def)
      done
  qed
qed

lemma switch_unknown:
  assumes "name \<notin> set tools"
  shows "handleTool_switch v name args = Inl (Error (''Unknown tool: '' @ name))"
  using assms by (simp add: tools_def handleTool_switch_def)

subsection \<open>handleTool around the switch\<close>

lemma handleTool_run:
  assumes "validateCredentials e = Inr ()"
      and "getApiClient e net now s = (Inr api, s1, tr)"
      and "handleTool_switch (SAILPOINT_API_VERSION e) name args = Inr (c, kind)"
  shows "handleTool e net now s name args =
           (case upstream net (api_request api c) of
              Inl err \<Rightarrow> (Inl err, s1, tr @ [api_request api c])
            | Inr response \<Rightarrow> (Inr (tool_result kind response), s1, tr @ [api_request api c]))"
  using assms by (simp add: handleTool_def)

lemma handleTool_requests:
  assumes "validateCredentials e = Inr ()"
      and "getApiClient e net now s = (Inr api, s1, tr)"
      and "handleTool_switch (SAILPOINT_API_VERSION e) name args = Inr (c, kind)"
  shows "snd (snd (handleTool e net now s name args)) = tr @ [api_request api c]"
  using handleTool_run [OF assms] by (simp split: sum.splits)

lemma handleTool_throws:
  assumes "validateCredentials e = Inr ()"
      and "getApiClient e net now s = (Inr api, s1, tr)"
      and "handleTool_switch (SAILPOINT_API_VERSION e) name args = Inl err"
  shows "handleTool e net now s name args = (Inl err, s1, tr)"
  using assms by (simp add: handleTool_def)

lemma handleTool_cong:
  assumes "handleTool_switch (SAILPOINT_API_VERSION e) name args = handleTool_switch (SAILPOINT_API_VERSION e) name args'"
  shows "handleTool e net now s name args = handleTool e net now s name args'"
  unfolding handleTool_def assms ..

subsection \<open>The example configuration\<close>

lemma example_env_valid: "validateCredentials example_env = Inr ()"
  by (simp add: validateCredentials_def missingVars_def example_env_def SAILPOINT_BASE_URL_def
      SAILPOINT_CLIENT_ID_def SAILPOINT_CLIENT_SECRET_def env_or_def)
lemma example_getApiClient:
  "getApiClient example_env net 1000000 (example_state 2000000)
     = (Inr example_client, (example_state 2000000)\<lparr>apiClient := Some example_client\<rparr>, [])"
  by (simp add: getApiClient_def getAccessToken_def example_state_def example_client_def
      example_env_def SAILPOINT_BASE_URL_def env_or_def Let_def)

lemma example_version: "SAILPOINT_API_VERSION example_env = ''v3''"
  by (simp add: SAILPOINT_API_VERSION_def example_env_def env_or_def)

section \<open>Claims about the dispatcher\<close>

text \<open>
  C1 as stated fails twice. The catalogue has 36 tools, not 40 (and the documented table
  36 rows). And a name outside the catalogue does not always fail with the unknown-tool
  error: \<open>handleTool\<close> validates the configuration and obtains the client instance before
  it looks at the name, so with a variable unset the same call fails with the
  configuration error.
\<close>

theorem tool_count_counterexample:
  "length tools = 36 \<and> length tools \<noteq> 40
   \<and> ''delete_identity'' \<notin> set tools
   \<and> fst (handleTool example_env_unset example_network_down 1000000 initial_state ''delete_identity'' Map.empty)
       \<noteq> Inl (Error ''Unknown tool: delete_identity'')"
  by (simp add: tools_def handleTool_def validateCredentials_def missingVars_def example_env_unset_def
      SAILPOINT_BASE_URL_def SAILPOINT_CLIENT_ID_def SAILPOINT_CLIENT_SECRET_def env_or_def
      credentials_message_def)

text \<open>
  C1, amended. The catalogue and the documented endpoint table hold the same 36 tool
  names. For every one of them, when the configuration is complete, the client instance
  is obtained (a token is cached or the exchange succeeds) and the array-valued arguments
  of the two create tools are arrays, \<open>handleTool\<close> sends, after the requests of the token
  cache, exactly one request, to the instance's base URL, whose method is the table's and
  whose path is the table's with \<open>{id}\<close> replaced by the tool's id argument and the
  version segment substituted by \<open>apiPath\<close>. For every other name, under the same
  conditions, it throws the error \<open>Unknown tool: <name>\<close> and sends nothing more.
\<close>

theorem handleTool_dispatch:
  "length tools = 36 \<and> distinct tools
   \<and> length endpoint_table = 36 \<and> set (map fst endpoint_table) = set tools
   \<and> (validateCredentials e = Inr () \<and> getApiClient e net now s = (Inr api, s1, tr)
        \<and> array_args name args \<and> map_of endpoint_table name = Some (m, tmpl)
      \<longrightarrow> (\<exists>req. snd (snd (handleTool e net now s name args)) = tr @ [req]
            \<and> req_method req = m
            \<and> req_baseURL req = Some (baseURL api)
            \<and> req_url req = apiPath (SAILPOINT_API_VERSION e)
                               (fill (to_string (arg args (id_argument name))) tmpl)))
   \<and> (validateCredentials e = Inr () \<and> getApiClient e net now s = (Inr api, s1, tr)
        \<and> name \<notin> set tools
      \<longrightarrow> handleTool e net now s name args = (Inl (Error (''Unknown tool: '' @ name)), s1, tr))"
proof -
  have known: "\<exists>req. snd (snd (handleTool e net now s name args)) = tr @ [req]
            \<and> req_method req = m
            \<and> req_baseURL req = Some (baseURL api)
            \<and> req_url req = apiPath (SAILPOINT_API_VERSION e)
                               (fill (to_string (arg args (id_argument name))) tmpl)"
    if v: "validateCredentials e = Inr ()" and g: "getApiClient e net now s = (Inr api, s1, tr)"
      and a: "array_args name args" and t: "map_of endpoint_table name = Some (m, tmpl)"
  proof -
    from t have "(name, m, tmpl) \<in> set endpoint_table"
      by (rule map_of_SomeD)
    from switch_known [OF this a, of "SAILPOINT_API_VERSION e"]
    obtain c kind where c: "handleTool_switch (SAILPOINT_API_VERSION e) name args = Inr (c, kind)"
      "call_method c = m"
      "call_path c = apiPath (SAILPOINT_API_VERSION e) (fill (to_string (arg args (id_argument name))) tmpl)"
      by blast
    from handleTool_requests [OF v g c(1)] c(2,3) show ?thesis
      by (simp add: api_request_def)
  qed
  have unknown: "handleTool e net now s name args = (Inl (Error (''Unknown tool: '' @ name)), s1, tr)"
    if "validateCredentials e = Inr ()" and "getApiClient e net now s = (Inr api, s1, tr)"
      and "name \<notin> set tools"
    using that by (simp add: handleTool_throws switch_unknown)
  have "distinct tools"
    by (simp add: tools_def)
  with known unknown table_names(1,3) table_tools show ?thesis
    by blast
qed

text \<open>
  A tool whose \<open>{id}\<close> is the argument \<open>accountId\<close>, and a name that is not in the
  catalogue.
\<close>

theorem handleTool_dispatch_witness:
  "validateCredentials example_env = Inr ()
   \<and> getApiClient example_env (example_network example_token) 1000000 (example_state 2000000)
      = (Inr example_client, (example_state 2000000)\<lparr>apiClient := Some example_client\<rparr>, [])
   \<and> array_args ''get_account_entitlements'' [''accountId'' \<mapsto> JStr ''acc1'']
   \<and> map_of endpoint_table ''get_account_entitlements''
      = Some (GET, [Lit ''/v3/accounts/'', IdParam, Lit ''/entitlements''])
   \<and> length (snd (snd (handleTool example_env (example_network example_token) 1000000 (example_state 2000000)
         ''get_account_entitlements'' [''accountId'' \<mapsto> JStr ''acc1'']))) = 1
   \<and> req_method (last (snd (snd (handleTool example_env (example_network example_token) 1000000
         (example_state 2000000) ''get_account_entitlements'' [''accountId'' \<mapsto> JStr ''acc1''])))) = GET
   \<and> req_url (last (snd (snd (handleTool example_env (example_network example_token) 1000000
         (example_state 2000000) ''get_account_entitlements'' [''accountId'' \<mapsto> JStr ''acc1''])))) 
      = ''/v3/accounts/acc1/entitlements''
   \<and> ''delete_identity'' \<notin> set tools
   \<and> handleTool example_env (example_network example_token) 1000000 (example_state 2000000)
        ''delete_identity'' Map.empty
      = (Inl (Error ''Unknown tool: delete_identity''),
         (example_state 2000000)\<lparr>apiClient := Some example_client\<rparr>, [])"
proof -
  note v = example_env_valid
  note g = example_getApiClient [of "example_network example_token"]
  have a: "array_args ''get_account_entitlements'' [''accountId'' \<mapsto> JStr ''acc1'']"
    by (simp add: array_args_def)
  have t: "map_of endpoint_table ''get_account_entitlements''
      = Some (GET, [Lit ''/v3/accounts/'', IdParam, Lit ''/entitlements''])"
    by (simp add: endpoint_table_def)
  have u: "''delete_identity'' \<notin> set tools"
    by (simp add: tools_def)
  have p: "apiPath (SAILPOINT_API_VERSION example_env)
             (fill (to_string (arg [''accountId'' \<mapsto> JStr ''acc1''] (id_argument ''get_account_entitlements'')))
                [Lit ''/v3/accounts/'', IdParam, Lit ''/entitlements''])
           = ''/v3/accounts/acc1/entitlements''"
    by (simp add: example_version id_argument_def arg_def apiPath_baseline)
  from handleTool_dispatch [of example_env "example_network example_token" 1000000 "example_state 2000000"
      example_client "(example_state 2000000)\<lparr>apiClient := Some example_client\<rparr>" "[]"
      "''get_account_entitlements''" "[''accountId'' \<mapsto> JStr ''acc1'']" GET
      "[Lit ''/v3/accounts/'', IdParam, Lit ''/entitlements'']"] v g a t
  obtain req where "snd (snd (handleTool example_env (example_network example_token) 1000000 (example_state 2000000)
         ''get_account_entitlements'' [''accountId'' \<mapsto> JStr ''acc1''])) = [req]"
      "req_method req = GET" "req_url req = ''/v3/accounts/acc1/entitlements''"
    unfolding p by auto
  moreover
  from handleTool_dispatch [of example_env "example_network example_token" 1000000 "example_state 2000000"
      example_client "(example_state 2000000)\<lparr>apiClient := Some example_client\<rparr>" "[]"
      "''delete_identity''" Map.empty GET "[]"] v g u
  have "handleTool example_env (example_network example_token) 1000000 (example_state 2000000)
        ''delete_identity'' Map.empty
      = (Inl (Error ''Unknown tool: delete_identity''),
         (example_state 2000000)\<lparr>apiClient := Some example_client\<rparr>, [])"
    by simp
  ultimately show ?thesis
    using v g a t u by simp
qed

text \<open>
  C5. The call \<open>list_identities({limit: 50, offset: 0})\<close>, with the configuration set and a
  valid token cached, evaluated: one GET request to \<open>{base}\<close>, path
  \<open>/v3/public-identities\<close>, with the bearer header, and the upstream's response data
  returned as it is. The query parameters are \<open>limit\<close> alone: \<open>if (args.offset)\<close> is
  false for 0, so \<open>offset\<close> is not sent.
\<close>

theorem list_identities_offset_zero:
  "handleTool example_env (example_network example_token) 1000000 (example_state 2000000)
      ''list_identities'' [''limit'' \<mapsto> JNum 50, ''offset'' \<mapsto> JNum 0]
   = (Inr (resp_data example_response),
      (example_state 2000000)\<lparr>apiClient := Some example_client\<rparr>,
      [\<lparr>req_method = GET,
        req_baseURL = Some ''https://acme.api.identitynow.com'',
        req_url = ''/v3/public-identities'',
        req_params = [(''limit'', JNum 50)],
        req_headers = [(''Content-Type'', ''application/json''), (''Authorization'', ''Bearer tok'')],
        req_data = NoBody\<rparr>])"
proof -
  have "handleTool_switch (SAILPOINT_API_VERSION example_env) ''list_identities''
          [''limit'' \<mapsto> JNum 50, ''offset'' \<mapsto> JNum 0]
        = Inr (\<lparr>call_method = GET, call_path = ''/v3/public-identities'',
                 call_params = [(''limit'', JNum 50)], call_data = None\<rparr>, ResponseData)"
    by (simp add: example_version handleTool_switch_def api_get_def opt_def arg_def apiPath_baseline)
  from handleTool_run [OF example_env_valid example_getApiClient this, of "example_network example_token"]
  show ?thesis
    by (simp add: example_network_def api_request_def example_client_def tool_result_def)
qed







text \<open>
  C9. With \<open>requestedFor\<close> and \<open>requestedItems\<close> present and \<open>requestType\<close> absent,
  \<open>create_access_request\<close> sends one POST to \<open>/v3/access-requests\<close> (under the configured
  version) whose body has \<open>requestedFor\<close> and \<open>requestedItems\<close> as they were given and
  \<open>requestType\<close> equal to \<open>GRANT_ACCESS\<close>.
\<close>

theorem create_access_request_default:
  assumes "validateCredentials e = Inr ()"
      and "getApiClient e net now s = (Inr api, s1, tr)"
      and "args ''requestedFor'' = Some requestedFor"
      and "args ''requestedItems'' = Some requestedItems"
      and "args ''requestType'' = None"
  shows "snd (snd (handleTool e net now s ''create_access_request'' args))
         = tr @ [\<lparr>req_method = POST,
                  req_baseURL = Some (baseURL api),
                  req_url = apiPath (SAILPOINT_API_VERSION e) ''/v3/access-requests'',
                  req_params = [],
                  req_headers = headers api,
                  req_data = JsonBody (JObj [(''requestedFor'', requestedFor),
                                             (''requestedItems'', requestedItems),
                                             (''requestType'', JStr ''GRANT_ACCESS'')])\<rparr>]"
proof -
  have "handleTool_switch (SAILPOINT_API_VERSION e) ''create_access_request'' args
        = Inr (\<lparr>call_method = POST,
                 call_path = apiPath (SAILPOINT_API_VERSION e) ''/v3/access-requests'',
                 call_params = [],
                 call_data = Some (JObj [(''requestedFor'', requestedFor),
                                         (''requestedItems'', requestedItems),
                                         (''requestType'', JStr ''GRANT_ACCESS'')])\<rparr>, ResponseData)"
    using assms(3-5) by (simp add: handleTool_switch_def api_post_def arg_def js_or_def)
  from handleTool_requests [OF assms(1,2) this] show ?thesis
    by (simp add: api_request_def)
qed

text \<open>The spec's scenario.\<close>

theorem create_access_request_default_witness:
  "validateCredentials example_env = Inr ()
   \<and> example_request_args ''requestType'' = None
   \<and> snd (snd (handleTool example_env (example_network example_token) 1000000 (example_state 2000000)
         ''create_access_request'' example_request_args))
     = [\<lparr>req_method = POST,
         req_baseURL = Some ''https://acme.api.identitynow.com'',
         req_url = ''/v3/access-requests'',
         req_params = [],
         req_headers = [(''Content-Type'', ''application/json''), (''Authorization'', ''Bearer tok'')],
         req_data = JsonBody (JObj [(''requestedFor'', JArr [JStr ''id1'']),
                                    (''requestedItems'', JArr [JObj [(''type'', JStr ''ROLE''), (''id'', JStr ''r1'')]]),
                                    (''requestType'', JStr ''GRANT_ACCESS'')])\<rparr>]"
proof -
  have a: "example_request_args ''requestedFor'' = Some (JArr [JStr ''id1''])"
    and b: "example_request_args ''requestedItems'' = Some (JArr [JObj [(''type'', JStr ''ROLE''), (''id'', JStr ''r1'')]])"
    and c: "example_request_args ''requestType'' = None"
    by (simp_all add: example_request_args_def)
  from create_access_request_default [OF example_env_valid example_getApiClient a b c, of "example_network example_token"]
    example_env_valid c
  show ?thesis
    by (simp add: example_version apiPath_baseline example_client_def)
qed

subsection \<open>Optional arguments\<close>

lemma opt_falsy:
  assumes "\<not> truthy v"
  shows "opt (args(k \<mapsto> v)) k' p = opt (args(k := None)) k' p"
  using assms by (cases v) (auto simp: opt_def arg_def)


lemma opt_absent [simp]: "p \<noteq> q \<Longrightarrow> map_of (opt args k p) q = None"
  by (simp add: opt_def)

lemma opt_present [simp]: "map_of (opt args k p) p = (if truthy (arg args k) then Some (arg args k) else None)"
  by (simp add: opt_def)

lemma arg_other: "k' \<noteq> k \<Longrightarrow> arg (args(k \<mapsto> v)) k' = arg (args(k := None)) k'"
  by (simp add: arg_def)

lemma switch_falsy:
  assumes "(name, opts) \<in> set list_tools" and "(k, p) \<in> set opts" and "\<not> truthy v"
  shows "handleTool_switch ver name (args(k \<mapsto> v)) = handleTool_switch ver name (args(k := None))"
  using assms(1,2)
  unfolding list_tools_def
  apply (simp only: set_simps insert_iff empty_iff prod.inject)
  apply (elim disjE conjE)
  apply (simp_all add: handleTool_switch_def opt_falsy [OF assms(3)])
  apply (auto simp: arg_other)
  done

lemma switch_list_params:
  assumes "(name, opts) \<in> set list_tools"
      and "handleTool_switch ver name args = Inr (c, kind)"
  shows "call_params c = concat (map (\<lambda>(k, p). opt args k p) opts)"
  using assms
  unfolding list_tools_def
  apply (simp only: set_simps insert_iff empty_iff prod.inject)
  apply (elim disjE conjE)
  apply (auto simp: handleTool_switch_def api_get_def)
  done

lemma list_tools_distinct:
  assumes "(name, opts) \<in> set list_tools"
  shows "distinct (map snd opts)"
  using assms
  unfolding list_tools_def
  apply (simp only: set_simps insert_iff empty_iff prod.inject)
  apply (elim disjE conjE)
  apply simp_all
  done

lemma params_absent:
  "p \<notin> snd ` set opts \<Longrightarrow> map_of (concat (map (\<lambda>(k, p). opt args k p) opts)) p = None"
  by (induction opts) (auto simp: map_add_def)

lemma params_lookup:
  assumes "distinct (map snd opts)" and "(k, p) \<in> set opts"
  shows "map_of (concat (map (\<lambda>(k, p). opt args k p) opts)) p
         = (if truthy (arg args k) then Some (arg args k) else None)"
  using assms
proof (induction opts)
  case Nil
  then show ?case by simp
next
  case (Cons kp opts)
  obtain k' p' where kp: "kp = (k', p')"
    by (cases kp)
  show ?case
  proof (cases "(k, p) = (k', p')")
    case True
    with Cons.prems(1) kp have "p \<notin> snd ` set opts"
      by simp
    then have "map_of (concat (map (\<lambda>(k, p). opt args k p) opts)) p = None"
      by (rule params_absent)
    with True kp show ?thesis
      by (simp add: map_add_def)
  next
    case False
    with Cons.prems(2) kp have in_rest: "(k, p) \<in> set opts"
      by auto
    with Cons.prems(1) kp have "p \<noteq> p'"
      by (auto simp: image_iff)
    moreover from Cons.IH Cons.prems(1) in_rest
    have "map_of (concat (map (\<lambda>(k, p). opt args k p) opts)) p
         = (if truthy (arg args k) then Some (arg args k) else None)"
      by simp
    ultimately show ?thesis
      using kp by (simp add: map_add_def)
  qed
qed

lemma switch_params:
  assumes "(name, opts) \<in> set list_tools" and "(k, p) \<in> set opts"
      and "handleTool_switch ver name args = Inr (c, kind)"
  shows "map_of (call_params c) p = (if truthy (arg args k) then Some (arg args k) else None)"
  using switch_list_params [OF assms(1,3)] params_lookup [OF list_tools_distinct [OF assms(1)] assms(2)]
  by simp

lemma switch_list_call:
  assumes "(name, opts) \<in> set list_tools"
  shows "\<exists>c. handleTool_switch ver name args = Inr (c, ResponseData) \<and> call_method c = GET"
  using assms
  unfolding list_tools_def
  apply (simp only: set_simps insert_iff empty_iff prod.inject)
  apply (elim disjE conjE)
  apply (simp_all add: handleTool_switch_def api_get_def)
  done

lemma list_tool_request:
  assumes "(name, opts) \<in> set list_tools" and "(k, p) \<in> set opts"
      and "validateCredentials e = Inr ()"
      and "getApiClient e net now s = (Inr api, s1, tr)"
  shows "\<exists>req. snd (snd (handleTool e net now s name args)) = tr @ [req]
           \<and> req_method req = GET
           \<and> map_of (req_params req) p = (if truthy (arg args k) then Some (arg args k) else None)"
proof -
  from switch_list_call [OF assms(1), of "SAILPOINT_API_VERSION e" args]
  obtain c where c: "handleTool_switch (SAILPOINT_API_VERSION e) name args = Inr (c, ResponseData)"
    "call_method c = GET"
    by blast
  from switch_params [OF assms(1,2) c(1)]
  have "map_of (call_params c) p = (if truthy (arg args k) then Some (arg args k) else None)" .
  with handleTool_requests [OF assms(3,4) c(1)] c(2) show ?thesis
    by (simp add: api_request_def)
qed

text \<open>
  C10. For every tool that builds query parameters for a GET request and every optional
  argument \<open>k\<close> of it, with query parameter \<open>p\<close>, when the configuration is complete and
  the client instance is obtained: the call with \<open>k\<close> set to \<open>v\<close> sends exactly one GET
  request, and that request carries \<open>p\<close>, with the value \<open>v\<close>, exactly when \<open>v\<close> is
  truthy; the call without \<open>k\<close> sends exactly one GET request, without \<open>p\<close>; and when
  \<open>v\<close> is falsy (0, the empty string, \<open>false\<close>, \<open>null\<close>) the call with \<open>k\<close> does in
  everything (result, state, requests) what the call without \<open>k\<close> does. The presence of
  the key in the argument bag decides nothing.
\<close>

theorem falsy_optional_omitted:
  assumes "(name, opts) \<in> set list_tools" and "(k, p) \<in> set opts"
      and "validateCredentials e = Inr ()"
      and "getApiClient e net now s = (Inr api, s1, tr)"
  shows "(\<exists>req. snd (snd (handleTool e net now s name (args(k \<mapsto> v)))) = tr @ [req]
            \<and> req_method req = GET
            \<and> map_of (req_params req) p = (if truthy v then Some v else None))
       \<and> (\<exists>req. snd (snd (handleTool e net now s name (args(k := None)))) = tr @ [req]
            \<and> req_method req = GET
            \<and> map_of (req_params req) p = None)
       \<and> (\<not> truthy v \<longrightarrow>
            handleTool e net now s name (args(k \<mapsto> v)) = handleTool e net now s name (args(k := None)))"
proof -
  have av: "arg (args(k \<mapsto> v)) k = v"
    by (simp add: arg_def)
  have an: "(if truthy (arg (args(k := None)) k) then Some (arg (args(k := None)) k) else None) = None"
    by (simp add: arg_def)
  from list_tool_request [OF assms, of "args(k \<mapsto> v)"]
  have given: "\<exists>req. snd (snd (handleTool e net now s name (args(k \<mapsto> v)))) = tr @ [req]
            \<and> req_method req = GET
            \<and> map_of (req_params req) p = (if truthy v then Some v else None)"
    unfolding av .
  from list_tool_request [OF assms, of "args(k := None)"]
  have absent: "\<exists>req. snd (snd (handleTool e net now s name (args(k := None)))) = tr @ [req]
            \<and> req_method req = GET
            \<and> map_of (req_params req) p = None"
    unfolding an .
  have same: "handleTool e net now s name (args(k \<mapsto> v)) = handleTool e net now s name (args(k := None))"
    if "\<not> truthy v"
    using switch_falsy [OF assms(1,2) that] by (rule handleTool_cong)
  from given absent same show ?thesis
    by blast
qed

text \<open>
  The list-identities tool with \<open>limit: 50\<close> and \<open>offset: 0\<close>: the one request carries
  \<open>limit\<close> with 50 and no \<open>offset\<close>, and the run is the run of \<open>{limit: 50}\<close>; the run
  with \<open>filters: ""\<close> is the run with no arguments.
\<close>

theorem falsy_optional_omitted_witness:
  "(''list_identities'', [(''limit'', ''limit''), (''offset'', ''offset''), (''filters'', ''filters''), (''sorters'', ''sorters'')])
      \<in> set list_tools
   \<and> validateCredentials example_env = Inr ()
   \<and> truthy (JNum 50) \<and> \<not> truthy (JNum 0) \<and> \<not> truthy (JStr [])
   \<and> length (snd (snd (handleTool example_env (example_network example_token) 1000000 (example_state 2000000)
        ''list_identities'' [''limit'' \<mapsto> JNum 50, ''offset'' \<mapsto> JNum 0]))) = 1
   \<and> req_method (last (snd (snd (handleTool example_env (example_network example_token) 1000000
        (example_state 2000000) ''list_identities'' [''limit'' \<mapsto> JNum 50, ''offset'' \<mapsto> JNum 0])))) = GET
   \<and> map_of (req_params (last (snd (snd (handleTool example_env (example_network example_token) 1000000
        (example_state 2000000) ''list_identities'' [''limit'' \<mapsto> JNum 50, ''offset'' \<mapsto> JNum 0])))))
        ''limit'' = Some (JNum 50)
   \<and> map_of (req_params (last (snd (snd (handleTool example_env (example_network example_token) 1000000
        (example_state 2000000) ''list_identities'' [''limit'' \<mapsto> JNum 50, ''offset'' \<mapsto> JNum 0])))))
        ''offset'' = None
   \<and> handleTool example_env (example_network example_token) 1000000 (example_state 2000000)
        ''list_identities'' [''limit'' \<mapsto> JNum 50, ''offset'' \<mapsto> JNum 0]
     = handleTool example_env (example_network example_token) 1000000 (example_state 2000000)
        ''list_identities'' [''limit'' \<mapsto> JNum 50]
   \<and> handleTool example_env (example_network example_token) 1000000 (example_state 2000000)
        ''list_identities'' [''filters'' \<mapsto> JStr []]
     = handleTool example_env (example_network example_token) 1000000 (example_state 2000000)
        ''list_identities'' Map.empty"
proof -
  note v = example_env_valid
  note g = example_getApiClient [of "example_network example_token"]
  have a: "(''list_identities'', [(''limit'', ''limit''), (''offset'', ''offset''), (''filters'', ''filters''), (''sorters'', ''sorters'')])
      \<in> set list_tools"
    by (simp add: list_tools_def)
  have l: "(''limit'', ''limit'') \<in> set [(''limit'', ''limit''), (''offset'', ''offset''), (''filters'', ''filters''), (''sorters'', ''sorters'')]"
    and b: "(''offset'', ''offset'') \<in> set [(''limit'', ''limit''), (''offset'', ''offset''), (''filters'', ''filters''), (''sorters'', ''sorters'')]"
    and c: "(''filters'', ''filters'') \<in> set [(''limit'', ''limit''), (''offset'', ''offset''), (''filters'', ''filters''), (''sorters'', ''sorters'')]"
    by simp_all
  have d: "[''limit'' \<mapsto> JNum 50](''offset'' := None) = [''limit'' \<mapsto> JNum 50]"
    by (rule ext) simp
  have f: "[''offset'' \<mapsto> JNum 0, ''limit'' \<mapsto> JNum 50] = [''limit'' \<mapsto> JNum 50, ''offset'' \<mapsto> JNum 0]"
    by (rule ext) simp
  from falsy_optional_omitted [OF a l v g, of "[''offset'' \<mapsto> JNum 0]" "JNum 50"]
  obtain req where r: "snd (snd (handleTool example_env (example_network example_token) 1000000
        (example_state 2000000) ''list_identities'' [''limit'' \<mapsto> JNum 50, ''offset'' \<mapsto> JNum 0])) = [req]"
      "req_method req = GET" "map_of (req_params req) ''limit'' = Some (JNum 50)"
    unfolding f by auto
  from falsy_optional_omitted [OF a b v g, of "[''limit'' \<mapsto> JNum 50]" "JNum 0"]
  obtain req' where r': "snd (snd (handleTool example_env (example_network example_token) 1000000
        (example_state 2000000) ''list_identities'' [''limit'' \<mapsto> JNum 50, ''offset'' \<mapsto> JNum 0])) = [req']"
      "map_of (req_params req') ''offset'' = None"
    and same: "handleTool example_env (example_network example_token) 1000000 (example_state 2000000)
        ''list_identities'' [''limit'' \<mapsto> JNum 50, ''offset'' \<mapsto> JNum 0]
     = handleTool example_env (example_network example_token) 1000000 (example_state 2000000)
        ''list_identities'' [''limit'' \<mapsto> JNum 50]"
    unfolding d by auto
  from r(1) r'(1) have "req' = req"
    by simp
  moreover
  from falsy_optional_omitted [OF a c v g, of Map.empty "JStr []"]
  have "handleTool example_env (example_network example_token) 1000000 (example_state 2000000)
        ''list_identities'' [''filters'' \<mapsto> JStr []]
     = handleTool example_env (example_network example_token) 1000000 (example_state 2000000)
        ''list_identities'' Map.empty"
    by simp
  ultimately show ?thesis
    using a v r r' same by simp
qed

end
